theory Spec2Isabelle
  imports Complex_Main "HOL-Library.Finite_Map"
begin

section \<open>The job application tracker API (server.js)\<close>

text \<open>
  The server keeps one module-level array \<open>jobs\<close> and registers six route handlers on
  it. Each handler is modelled as a function from the array before the request (and the
  request's path parameter and parsed body, where it reads them) to the pair of what the
  handler did (the response it sent, or the exception it threw) and the array afterwards.

  The module \<open>./jobs\<close> that provides the initial array is not part of the sources, so the
  initial array is a parameter: every statement below is about an arbitrary array.
\<close>

subsection \<open>JavaScript values\<close>

text \<open>
  A JavaScript number is an IEEE 754 double: \<open>NaN\<close>, an infinity, or a finite value, which
  is a rational. The two zeros are one value here: \<open>===\<close> and \<open>ToBoolean\<close> do not tell
  \<open>+0\<close> from \<open>-0\<close>.
\<close>

datatype number = NaN | Val rat | PosInf | NegInf

text \<open>
  The double nearest to a rational, ties to the even significand (the rounding of
  \<open>parseInt\<close> and of \<open>+\<close>). For \<open>q = p / d\<close> with \<open>2 ^ e \<le> q < 2 ^ (e + 1)\<close> the doubles
  around \<open>q\<close> are the multiples of \<open>2 ^ (e - 52)\<close>, and of \<open>2 ^ (- 1074)\<close> below the normal
  range; a result of \<open>2 ^ 1024\<close> or more is an infinity.
\<close>

function bit_length :: "nat \<Rightarrow> nat" where
  "bit_length n = (if n = 0 then 0 else Suc (bit_length (n div 2)))"
  by pat_completeness auto
termination
  by (relation "measure id") auto

declare bit_length.simps [simp del]

definition round_half_even :: "int \<Rightarrow> int \<Rightarrow> int" where
  "round_half_even a b =
     (let f = a div b; r2 = 2 * (a mod b)
      in if r2 < b then f
         else if b < r2 then f + 1
         else if even f then f else f + 1)"

definition binary_exponent :: "int \<Rightarrow> int \<Rightarrow> int" where
  "binary_exponent p d =
     (let e0 = int (bit_length (nat p)) - int (bit_length (nat d))
      in if (if 0 \<le> e0 then d * 2 ^ nat e0 \<le> p else d \<le> p * 2 ^ nat (- e0))
         then e0 else e0 - 1)"

definition round_to_multiple :: "int \<Rightarrow> int \<Rightarrow> int \<Rightarrow> rat" where
  "round_to_multiple p d s =
     (if 0 \<le> s then of_int (round_half_even p (d * 2 ^ nat s) * 2 ^ nat s)
      else of_int (round_half_even (p * 2 ^ nat (- s)) d) / of_int (2 ^ nat (- s)))"

definition to_double :: "rat \<Rightarrow> number" where
  "to_double q =
     (if q = 0 then Val 0
      else
        case quotient_of \<bar>q\<bar> of (p, d) \<Rightarrow>
          let r = round_to_multiple p d (max (binary_exponent p d) (- 1022) - 52)
          in if 2 ^ 1024 \<le> r then (if q < 0 then NegInf else PosInf)
             else Val (if q < 0 then - r else r))"

text \<open>
  The values \<open>JSON.parse\<close> can build, and \<open>undefined\<close>. An object is a finite mapping
  from property names to values; the enumeration order of its keys is not modelled.
\<close>

datatype jsval =
    JUndefined
  | JNull
  | JBool bool
  | JNum number
  | JStr string
  | JArr "jsval list"
  | JObj "(string, jsval) fmap"

datatype error = TypeError

record response =
  status :: nat
  payload :: jsval

type_synonym result = "(error + response) \<times> jsval list"

text \<open>\<open>ToBoolean\<close>, as used by \<open>if (job)\<close>.\<close>

fun truthy :: "jsval \<Rightarrow> bool" where
  "truthy JUndefined = False"
| "truthy JNull = False"
| "truthy (JBool b) = b"
| "truthy (JNum NaN) = False"
| "truthy (JNum (Val r)) = (r \<noteq> 0)"
| "truthy (JNum PosInf) = True"
| "truthy (JNum NegInf) = True"
| "truthy (JStr s) = (s \<noteq> [])"
| "truthy (JArr xs) = True"
| "truthy (JObj ps) = True"

text \<open>
  Reading a property of \<open>undefined\<close> or \<open>null\<close> throws a TypeError; every other value can
  be read.
\<close>

fun object_coercible :: "jsval \<Rightarrow> bool" where
  "object_coercible JUndefined = False"
| "object_coercible JNull = False"
| "object_coercible v = True"

text \<open>
  The property access \<open>job.id\<close>. Only an object built from JSON can have an own property
  \<open>id\<close>; none of the built-in prototypes has one, so the access yields \<open>undefined\<close> on
  arrays, strings, numbers and booleans and on objects without the key.
\<close>

fun member_id :: "jsval \<Rightarrow> error + jsval" where
  "member_id JUndefined = Inl TypeError"
| "member_id JNull = Inl TypeError"
| "member_id (JObj ps) = Inr (case fmlookup ps ''id'' of None \<Rightarrow> JUndefined | Some v \<Rightarrow> v)"
| "member_id v = Inr JUndefined"

text \<open>
  \<open>v === jobId\<close> where \<open>jobId\<close> is a number: true only for a number with the same
  value, and never for \<open>NaN\<close>.
\<close>

fun strict_equals_number :: "jsval \<Rightarrow> number \<Rightarrow> bool" where
  "strict_equals_number (JNum NaN) n = False"
| "strict_equals_number (JNum a) n = (a = n)"
| "strict_equals_number v n = False"

text \<open>The callback \<open>(job) => job.id === jobId\<close>.\<close>

definition id_is :: "number \<Rightarrow> jsval \<Rightarrow> error + bool" where
  "id_is jobId job =
     (case member_id job of
        Inl e \<Rightarrow> Inl e
      | Inr v \<Rightarrow> Inr (strict_equals_number v jobId))"

subsection \<open>parseInt\<close>

text \<open>
  \<open>parseInt(string, radix)\<close> after ECMAScript: leading white space is dropped, one sign
  is read, a \<open>0x\<close> prefix selects radix 16 when the radix is omitted or 16, and the
  longest prefix of digits of the radix is the value, rounded to a double; without such a
  digit the result is \<open>NaN\<close>. The radix argument is 0 when the call omits it. A string is a
  list of 8-bit characters, so of the white space only the code points below 256 occur.
\<close>

definition isWhiteSpace :: "char \<Rightarrow> bool" where
  "isWhiteSpace c =
     (c = CHR 0x09 \<or> c = CHR 0x0A \<or> c = CHR 0x0B \<or> c = CHR 0x0C \<or> c = CHR 0x0D
      \<or> c = CHR 0x20 \<or> c = CHR 0xA0)"

definition digit_value :: "char \<Rightarrow> nat option" where
  "digit_value c =
     (let n = (of_char c :: nat) in
      if 48 \<le> n \<and> n \<le> 57 then Some (n - 48)
      else if 97 \<le> n \<and> n \<le> 122 then Some (n - 87)
      else if 65 \<le> n \<and> n \<le> 90 then Some (n - 55)
      else None)"

definition is_radix_digit :: "nat \<Rightarrow> char \<Rightarrow> bool" where
  "is_radix_digit R c = (case digit_value c of None \<Rightarrow> False | Some d \<Rightarrow> d < R)"

fun radix_value :: "nat \<Rightarrow> nat \<Rightarrow> string \<Rightarrow> nat" where
  "radix_value R acc [] = acc"
| "radix_value R acc (c # cs) =
     radix_value R (acc * R + (case digit_value c of None \<Rightarrow> 0 | Some d \<Rightarrow> d)) cs"

definition skip_sign :: "string \<Rightarrow> string" where
  "skip_sign S = (if S \<noteq> [] \<and> (hd S = CHR ''+'' \<or> hd S = CHR ''-'') then tl S else S)"

definition parseInt :: "string \<Rightarrow> nat \<Rightarrow> number" where
  "parseInt string radix =
     (let S = dropWhile isWhiteSpace string;
          negative = (S \<noteq> [] \<and> hd S = CHR ''-'');
          S1 = skip_sign S
      in if radix \<noteq> 0 \<and> (radix < 2 \<or> 36 < radix) then NaN
         else
           let stripPrefix = (radix = 0 \<or> radix = 16);
               hex = (stripPrefix \<and> (take 2 S1 = ''0x'' \<or> take 2 S1 = ''0X''));
               S2 = (if hex then drop 2 S1 else S1);
               R = (if hex then 16 else if radix = 0 then 10 else radix);
               Z = takeWhile (is_radix_digit R) S2
           in if Z = [] then NaN
              else to_double (of_int ((if negative then - 1 else 1) * int (radix_value R 0 Z))))"

subsection \<open>Array methods\<close>

text \<open>
  \<open>Array.prototype.find\<close> and \<open>findIndex\<close> call the callback on the elements from
  index 0 upwards and stop at the first element it accepts; an exception of the callback
  ends the search. \<open>find\<close> yields \<open>undefined\<close> and \<open>findIndex\<close> yields -1 when no
  element is accepted.
\<close>

fun find_js :: "(jsval \<Rightarrow> error + bool) \<Rightarrow> jsval list \<Rightarrow> error + jsval" where
  "find_js p [] = Inr JUndefined"
| "find_js p (x # xs) =
     (case p x of
        Inl e \<Rightarrow> Inl e
      | Inr b \<Rightarrow> if b then Inr x else find_js p xs)"

fun findIndex_from :: "(jsval \<Rightarrow> error + bool) \<Rightarrow> int \<Rightarrow> jsval list \<Rightarrow> error + int" where
  "findIndex_from p k [] = Inr (- 1)"
| "findIndex_from p k (x # xs) =
     (case p x of
        Inl e \<Rightarrow> Inl e
      | Inr b \<Rightarrow> if b then Inr k else findIndex_from p (k + 1) xs)"

definition findIndex :: "(jsval \<Rightarrow> error + bool) \<Rightarrow> jsval list \<Rightarrow> error + int" where
  "findIndex p xs = findIndex_from p 0 xs"

text \<open>
  \<open>xs[i]\<close> reads \<open>undefined\<close> outside the array. \<open>xs[i] = v\<close> overwrites an element,
  extends the array when \<open>i\<close> is beyond its end (the holes read as \<open>undefined\<close>), and for
  a negative \<open>i\<close> sets a property that is no element.
\<close>

definition array_get :: "jsval list \<Rightarrow> int \<Rightarrow> jsval" where
  "array_get xs i = (if 0 \<le> i \<and> i < int (length xs) then xs ! nat i else JUndefined)"

definition array_set :: "jsval list \<Rightarrow> int \<Rightarrow> jsval \<Rightarrow> jsval list" where
  "array_set xs i v =
     (if i < 0 then xs
      else if i < int (length xs) then xs[nat i := v]
      else xs @ replicate (nat i - length xs) JUndefined @ [v])"

text \<open>The array after \<open>xs.splice(start, deleteCount)\<close>.\<close>

definition splice :: "jsval list \<Rightarrow> int \<Rightarrow> int \<Rightarrow> jsval list" where
  "splice xs start deleteCount =
     (let len = int (length xs);
          actualStart = (if start < 0 then max (len + start) 0 else min start len);
          actualDeleteCount = min (max deleteCount 0) (len - actualStart)
      in take (nat actualStart) xs @ drop (nat (actualStart + actualDeleteCount)) xs)"

subsection \<open>Object spread\<close>

text \<open>
  \<open>{ ...a, ...b }\<close> copies the own enumerable properties of \<open>a\<close> and then those of
  \<open>b\<close> into a fresh object. \<open>undefined\<close>, \<open>null\<close>, numbers and booleans have none; an
  array and a string have their indices.
\<close>

definition digit_char :: "nat \<Rightarrow> char" where
  "digit_char d = ''0123456789'' ! d"

function index_key :: "nat \<Rightarrow> string" where
  "index_key n = (if n < 10 then [digit_char n] else index_key (n div 10) @ [digit_char (n mod 10)])"
  by pat_completeness auto
termination
  by (relation "measure id") auto

fun own_properties :: "jsval \<Rightarrow> (string, jsval) fmap" where
  "own_properties (JObj ps) = ps"
| "own_properties (JArr xs) = fmap_of_list (zip (map index_key [0..<length xs]) xs)"
| "own_properties (JStr s) =
     fmap_of_list (zip (map index_key [0..<length s]) (map (\<lambda>c. JStr [c]) s))"
| "own_properties v = fmempty"

definition spread2 :: "jsval \<Rightarrow> jsval \<Rightarrow> jsval" where
  "spread2 a b = JObj ((fmempty ++\<^sub>f own_properties a) ++\<^sub>f own_properties b)"

subsection \<open>The route handlers\<close>

text \<open>
  \<open>app.use(express.json())\<close> runs before every handler, so \<open>req.body\<close> is what the body
  parser left there: an object or an array (the empty object when the request carries no
  JSON body). The logging middleware only prints a line when a response has been sent and
  is left out.
\<close>

definition message :: "string \<Rightarrow> jsval" where
  "message text = JObj (fmap_of_list [(''message'', JStr text)])"

text \<open>
  \<open>v + 1\<close>. A number is added to and rounded; \<open>undefined\<close>, \<open>null\<close> and booleans are
  converted to a number first; a string is concatenated with \<open>"1"\<close>. An object is
  converted by \<open>ToPrimitive\<close>: the inherited \<open>valueOf\<close> returns the object itself, so the
  conversion falls to \<open>toString\<close>, which gives \<open>"[object Object]"\<close> unless an own property
  of that name (never a function in a value built from JSON) hides it, and then a
  TypeError is thrown. For an array the addition joins the string forms of the elements,
  which needs the formatting of numbers; that is not modelled, and the result is \<open>None\<close>.
\<close>

fun plus_one :: "jsval \<Rightarrow> (error + jsval) option" where
  "plus_one (JNum NaN) = Some (Inr (JNum NaN))"
| "plus_one (JNum (Val a)) = Some (Inr (JNum (to_double (a + 1))))"
| "plus_one (JNum PosInf) = Some (Inr (JNum PosInf))"
| "plus_one (JNum NegInf) = Some (Inr (JNum NegInf))"
| "plus_one JUndefined = Some (Inr (JNum NaN))"
| "plus_one JNull = Some (Inr (JNum (Val 1)))"
| "plus_one (JBool b) = Some (Inr (JNum (Val (if b then 2 else 1))))"
| "plus_one (JStr s) = Some (Inr (JStr (s @ ''1'')))"
| "plus_one (JObj ps) =
     (if ''toString'' |\<in>| fmdom ps then Some (Inl TypeError)
      else Some (Inr (JStr ''[object Object]1'')))"
| "plus_one (JArr xs) = None"

text \<open>\<open>function getNextIdFromCollection(collection)\<close>. No handler calls it.\<close>

definition getNextIdFromCollection :: "jsval list \<Rightarrow> (error + jsval) option" where
  "getNextIdFromCollection collection =
     (if length collection = 0 then Some (Inr (JNum (Val 1)))
      else
        let lastRecord = collection ! (length collection - 1) in
        case member_id lastRecord of
          Inl e \<Rightarrow> Some (Inl e)
        | Inr v \<Rightarrow> plus_one v)"

text \<open>\<open>app.get("/", ...)\<close>\<close>

definition get_root :: "jsval list \<Rightarrow> result" where
  "get_root jobs =
     (Inr \<lparr>status = 200, payload = JStr ''welcome to the Job App tracker API!!''\<rparr>, jobs)"

text \<open>\<open>app.get("/jobs", ...)\<close>\<close>

definition get_jobs :: "jsval list \<Rightarrow> result" where
  "get_jobs jobs = (Inr \<lparr>status = 200, payload = JArr jobs\<rparr>, jobs)"

text \<open>\<open>app.get("/jobs/:id", ...)\<close>; \<open>idParam\<close> is \<open>req.params.id\<close>.\<close>

definition get_jobs_id :: "jsval list \<Rightarrow> string \<Rightarrow> result" where
  "get_jobs_id jobs idParam =
     (let jobId = parseInt idParam 0 in
      case find_js (id_is jobId) jobs of
        Inl e \<Rightarrow> (Inl e, jobs)
      | Inr job \<Rightarrow>
          if truthy job then (Inr \<lparr>status = 200, payload = job\<rparr>, jobs)
          else (Inr \<lparr>status = 404, payload = message ''Job not found''\<rparr>, jobs))"

text \<open>\<open>app.post("/jobs", ...)\<close>; \<open>body\<close> is \<open>req.body\<close>.\<close>

definition post_jobs :: "jsval list \<Rightarrow> jsval \<Rightarrow> result" where
  "post_jobs jobs body =
     (let newJob = body in
      (Inr \<lparr>status = 201, payload = newJob\<rparr>, jobs @ [newJob]))"

text \<open>\<open>app.patch("/jobs/:id", ...)\<close>\<close>

definition patch_jobs_id :: "jsval list \<Rightarrow> string \<Rightarrow> jsval \<Rightarrow> result" where
  "patch_jobs_id jobs idParam body =
     (let jobId = parseInt idParam 10;
          jobUpdates = body
      in case findIndex (id_is jobId) jobs of
           Inl e \<Rightarrow> (Inl e, jobs)
         | Inr jobIndex \<Rightarrow>
             let updatedJob = spread2 (array_get jobs jobIndex) jobUpdates in
             if jobIndex \<noteq> - 1
             then (Inr \<lparr>status = 200, payload = updatedJob\<rparr>, array_set jobs jobIndex updatedJob)
             else (Inr \<lparr>status = 404, payload = message ''Job not found''\<rparr>, jobs))"

text \<open>\<open>app.delete("/jobs/:id", ...)\<close>\<close>

definition delete_jobs_id :: "jsval list \<Rightarrow> string \<Rightarrow> result" where
  "delete_jobs_id jobs idParam =
     (let jobId = parseInt idParam 10 in
      case findIndex (id_is jobId) jobs of
        Inl e \<Rightarrow> (Inl e, jobs)
      | Inr jobIndex \<Rightarrow>
          if jobIndex \<noteq> - 1
          then (Inr \<lparr>status = 200, payload = message ''Job deleted successfully''\<rparr>,
                splice jobs jobIndex 1)
          else (Inr \<lparr>status = 404, payload = message ''Job not found''\<rparr>, jobs))"


subsection \<open>Requests in sequence\<close>

text \<open>
  A request names the route that Express matched, with the path parameter and the parsed
  body the handler reads. An exception of a handler ends that request only (Express
  answers it with status 500); the array stays as the handler left it.
\<close>

datatype request =
    GetRoot
  | GetJobs
  | GetJobsId string
  | PostJobs jsval
  | PatchJobsId string jsval
  | DeleteJobsId string

fun dispatch :: "jsval list \<Rightarrow> request \<Rightarrow> result" where
  "dispatch jobs GetRoot = get_root jobs"
| "dispatch jobs GetJobs = get_jobs jobs"
| "dispatch jobs (GetJobsId idParam) = get_jobs_id jobs idParam"
| "dispatch jobs (PostJobs body) = post_jobs jobs body"
| "dispatch jobs (PatchJobsId idParam body) = patch_jobs_id jobs idParam body"
| "dispatch jobs (DeleteJobsId idParam) = delete_jobs_id jobs idParam"

fun run :: "jsval list \<Rightarrow> request list \<Rightarrow> (error + response) list \<times> jsval list" where
  "run jobs [] = ([], jobs)"
| "run jobs (r # rs) =
     (case dispatch jobs r of (out, jobs') \<Rightarrow>
        (case run jobs' rs of (outs, jobs'') \<Rightarrow> (out # outs, jobs'')))"

subsection \<open>Vocabulary of the properties\<close>

text \<open>A record has the id \<open>n\<close> when the handlers' callback accepts it.\<close>

definition has_id :: "number \<Rightarrow> jsval \<Rightarrow> bool" where
  "has_id n job = (id_is n job = Inr True)"

text \<open>
  A path parameter has a numeric prefix when, after leading white space and one optional
  sign, it starts with a decimal digit.
\<close>

definition numeric_prefix :: "string \<Rightarrow> bool" where
  "numeric_prefix s =
     (case skip_sign (dropWhile isWhiteSpace s) of
        [] \<Rightarrow> False
      | c # cs \<Rightarrow> is_radix_digit 10 c)"

text \<open>The body of a create request can be read: it is not \<open>undefined\<close> or \<open>null\<close>.\<close>

fun body_readable :: "request \<Rightarrow> bool" where
  "body_readable (PostJobs body) = object_coercible body"
| "body_readable r = True"

subsection \<open>Example records\<close>

definition job_applied :: jsval where
  "job_applied = JObj (fmap_of_list [(''id'', JNum (Val 1)), (''status'', JStr ''Applied'')])"

definition status_interviewing :: jsval where
  "status_interviewing = JObj (fmap_of_list [(''status'', JStr ''Interviewing'')])"

definition job_interviewing :: jsval where
  "job_interviewing =
     JObj (fmap_of_list [(''id'', JNum (Val 1)), (''status'', JStr ''Interviewing'')])"

definition job_twelve :: jsval where
  "job_twelve = JObj (fmap_of_list [(''id'', JNum (Val 12)), (''title'', JStr ''B'')])"

definition job_titled_A :: jsval where
  "job_titled_A = JObj (fmap_of_list [(''title'', JStr ''A'')])"

definition job_one_again :: jsval where
  "job_one_again = JObj (fmap_of_list [(''id'', JNum (Val 1)), (''title'', JStr ''C'')])"

definition id_seven :: jsval where
  "id_seven = JObj (fmap_of_list [(''id'', JNum (Val 7))])"

definition job_seven_applied :: jsval where
  "job_seven_applied = JObj (fmap_of_list [(''id'', JNum (Val 7)), (''status'', JStr ''Applied'')])"

definition job_two_to_53 :: jsval where
  "job_two_to_53 = JObj (fmap_of_list [(''id'', JNum (Val 9007199254740992))])"

section \<open>Auxiliary facts\<close>

subsection \<open>Rounding to a double\<close>

lemma bit_length_0: "bit_length 0 = 0"
  by (simp add: bit_length.simps)

lemma bit_length_pos: "0 < n \<Longrightarrow> bit_length n = Suc (bit_length (n div 2))"
  by (subst bit_length.simps) simp

lemma bit_length_bounds:
  "0 < n \<Longrightarrow> 2 ^ (bit_length n - 1) \<le> n \<and> n < 2 ^ bit_length n"
proof (induction n rule: bit_length.induct)
  case (1 n)
  show ?case
  proof (cases "n div 2 = 0")
    case True
    with "1.prems" have "n = 1" by (auto simp: div_eq_0_iff)
    then show ?thesis by (simp add: bit_length_pos bit_length_0)
  next
    case False
    with "1.IH" "1.prems"
    have ih: "2 ^ (bit_length (n div 2) - 1) \<le> n div 2" "n div 2 < 2 ^ bit_length (n div 2)"
      by auto
    from False have bpos: "0 < bit_length (n div 2)"
      by (simp add: bit_length_pos)
    then obtain b where b: "bit_length (n div 2) = Suc b"
      by (cases "bit_length (n div 2)") auto
    from ih b have "2 ^ b \<le> n div 2" "n div 2 < 2 * 2 ^ b" by simp_all
    then have "2 * 2 ^ b \<le> n" "n < 2 * (2 * 2 ^ b)" by linarith+
    with "1.prems" b show ?thesis by (simp add: bit_length_pos)
  qed
qed

lemma round_half_even_one: "round_half_even a 1 = a"
  by (simp add: round_half_even_def)

lemma binary_exponent_nat:
  assumes "0 < n"
  shows "binary_exponent (int n) 1 = int (bit_length n) - 1"
proof -
  from bit_length_bounds [OF assms] have lo: "2 ^ (bit_length n - 1) \<le> n" by simp
  from assms have bpos: "0 < bit_length n" by (simp add: bit_length_pos)
  have one: "bit_length (Suc 0) = 1" by (simp add: bit_length_pos bit_length_0)
  have "int (2 ^ (bit_length n - 1)) \<le> int n"
    using lo by (simp only: of_nat_le_iff)
  then have "(2::int) ^ (bit_length n - 1) \<le> int n" by simp
  moreover have "nat (int (bit_length n) - 1) = bit_length n - 1" by simp
  ultimately show ?thesis
    using bpos by (simp add: binary_exponent_def one Let_def)
qed

lemma round_to_multiple_int:
  assumes "s \<le> 0"
  shows "round_to_multiple p 1 s = of_int p"
proof (cases "s = 0")
  case True
  then show ?thesis by (simp add: round_to_multiple_def round_half_even_one)
next
  case False
  with assms have "s < 0" by simp
  then show ?thesis by (simp add: round_to_multiple_def round_half_even_one)
qed

text \<open>The integers below \<open>2 ^ 53\<close> are doubles: rounding leaves them as they are.\<close>

lemma to_double_small_nat:
  assumes "0 < n" and "n < 2 ^ 53"
  shows "to_double (of_nat n) = Val (of_nat n) \<and> to_double (- of_nat n) = Val (- of_nat n)"
proof -
  from bit_length_bounds [OF assms(1)] have lo: "2 ^ (bit_length n - 1) \<le> n" by simp
  have "bit_length n \<le> 53"
  proof (rule ccontr)
    assume "\<not> bit_length n \<le> 53"
    then have "(2::nat) ^ 53 \<le> 2 ^ (bit_length n - 1)"
      by (intro power_increasing) auto
    with lo assms(2) show False by simp
  qed
  then have s: "max (binary_exponent (int n) 1) (- 1022) - 52 \<le> 0"
    by (simp add: binary_exponent_nat [OF assms(1)])
  have q: "quotient_of \<bar>rat_of_nat n\<bar> = (int n, 1)" "quotient_of \<bar>- rat_of_nat n\<bar> = (int n, 1)"
    using quotient_of_int [of "int n"] by simp_all
  have r: "round_to_multiple (int n) 1 (max (binary_exponent (int n) 1) (- 1022) - 52)
           = rat_of_nat n"
    using round_to_multiple_int [OF s, of "int n"] by simp
  have big: "\<not> (2::rat) ^ 1024 \<le> rat_of_nat n"
  proof -
    have "n < 2 ^ 1024" using assms(2) by (rule less_trans) simp
    then have "rat_of_nat n < rat_of_nat (2 ^ 1024)" by (simp only: of_nat_less_iff)
    then show ?thesis by simp
  qed
  from assms(1) have nz: "rat_of_nat n \<noteq> 0" "\<not> rat_of_nat n < 0"
    by simp_all
  show ?thesis
    using nz big by (simp add: to_double_def q r Let_def del: power_numeral)
qed

lemma to_double_numeral:
  "numeral k < (2::nat) ^ 53 \<Longrightarrow> to_double (numeral k) = Val (numeral k)"
  "numeral k < (2::nat) ^ 53 \<Longrightarrow> to_double (- numeral k) = Val (- numeral k)"
  using to_double_small_nat [of "numeral k"] by simp_all

lemma to_double_one: "to_double 1 = Val 1" "to_double (- 1) = Val (- 1)"
  using to_double_small_nat [of 1] by simp_all

subsection \<open>Evaluating parseInt\<close>

lemmas parse_eval =
  parseInt_def skip_sign_def isWhiteSpace_def is_radix_digit_def digit_value_def Let_def
  to_double_numeral to_double_one

text \<open>
  Above \<open>2 ^ 53\<close> the parsed value is the nearest double: \<open>"9007199254740993"\<close> names
  \<open>2 ^ 53 + 1\<close> and parses to \<open>2 ^ 53\<close>, so a request for it finds the record whose id
  is \<open>9007199254740992\<close>.
\<close>

lemma to_double_above_2_to_53: "to_double 9007199254740993 = Val 9007199254740992"
proof -
  have bl: "bit_length 9007199254740993 = 54"
    by (simp add: bit_length.simps)
  have e: "binary_exponent 9007199254740993 1 = 53"
    using binary_exponent_nat [of 9007199254740993] by (simp add: bl)
  have r: "round_to_multiple 9007199254740993 1 1 = 9007199254740992"
    by (simp add: round_to_multiple_def round_half_even_def Let_def)
  show ?thesis
    by (simp add: to_double_def e r Let_def)
qed

lemma parseInt_rounds:
  "parseInt ''9007199254740993'' 0 = Val 9007199254740992
   \<and> parseInt ''9007199254740993'' 10 = Val 9007199254740992
   \<and> get_jobs_id [job_two_to_53] ''9007199254740993''
       = (Inr \<lparr>status = 200, payload = job_two_to_53\<rparr>, [job_two_to_53])"
proof -
  have p: "parseInt ''9007199254740993'' 0 = Val 9007199254740992"
    "parseInt ''9007199254740993'' 10 = Val 9007199254740992"
    by (simp_all add: parseInt_def skip_sign_def isWhiteSpace_def is_radix_digit_def
        digit_value_def Let_def to_double_above_2_to_53)
  have "id_is (Val 9007199254740992) job_two_to_53 = Inr True"
    by (simp add: job_two_to_53_def id_is_def)
  with p show ?thesis
    by (simp add: get_jobs_id_def job_two_to_53_def Let_def)
qed

lemma no_numeric_prefix_NaN:
  assumes "\<not> numeric_prefix s"
  shows "parseInt s 0 = NaN \<and> parseInt s 10 = NaN"
proof (cases "skip_sign (dropWhile isWhiteSpace s)")
  case Nil
  then show ?thesis by (simp add: parseInt_def Let_def)
next
  case (Cons c cs)
  with assms have nd: "\<not> is_radix_digit 10 c"
    by (simp add: numeric_prefix_def)
  have "is_radix_digit 10 CHR ''0''"
    by (simp add: is_radix_digit_def digit_value_def)
  with nd have "c \<noteq> CHR ''0''" by auto
  with Cons nd show ?thesis by (simp add: parseInt_def Let_def)
qed

subsection \<open>The search for an id\<close>

lemma strict_equals_number_iff:
  "strict_equals_number v n \<longleftrightarrow> v = JNum n \<and> n \<noteq> NaN"
  by (cases "(v, n)" rule: strict_equals_number.cases) auto

lemma has_id_iff:
  "has_id n j \<longleftrightarrow> (\<exists>ps. j = JObj ps \<and> fmlookup ps ''id'' = Some (JNum n) \<and> n \<noteq> NaN)"
  by (cases j) (auto simp: has_id_def id_is_def strict_equals_number_iff split: option.splits)

lemma id_is_total: "object_coercible j \<Longrightarrow> id_is n j = Inr (has_id n j)"
  by (cases j) (auto simp: id_is_def has_id_def)

lemma find_js_absent:
  "list_all object_coercible S \<Longrightarrow> \<not> list_ex (has_id n) S \<Longrightarrow>
   find_js (id_is n) S = Inr JUndefined"
  by (induction S) (auto simp: id_is_total)

lemma find_js_total:
  "list_all object_coercible S \<Longrightarrow> \<exists>j. find_js (id_is n) S = Inr j"
  by (induction S) (auto simp: id_is_total)

lemma findIndex_from_absent:
  "list_all object_coercible S \<Longrightarrow> \<not> list_ex (has_id n) S \<Longrightarrow>
   findIndex_from (id_is n) k S = Inr (- 1)"
  by (induction S arbitrary: k) (auto simp: id_is_total)

lemma findIndex_from_first:
  "list_all object_coercible S \<Longrightarrow> p < length S \<Longrightarrow> has_id n (S ! p) \<Longrightarrow>
   \<not> list_ex (has_id n) (take p S) \<Longrightarrow> findIndex_from (id_is n) k S = Inr (k + int p)"
proof (induction S arbitrary: k p)
  case Nil
  then show ?case by simp
next
  case (Cons x xs)
  show ?case
  proof (cases p)
    case 0
    with Cons.prems show ?thesis by (simp add: id_is_total)
  next
    case (Suc q)
    with Cons.prems have "findIndex_from (id_is n) (k + 1) xs = Inr (k + 1 + int q)"
      by (intro Cons.IH) auto
    with Cons.prems Suc show ?thesis by (simp add: id_is_total)
  qed
qed

lemma findIndex_from_total:
  "list_all object_coercible S \<Longrightarrow>
   \<exists>r. findIndex_from (id_is n) k S = Inr r \<and> (r = - 1 \<or> (k \<le> r \<and> r < k + int (length S)))"
proof (induction S arbitrary: k)
  case Nil
  then show ?case by simp
next
  case (Cons x xs)
  then obtain r where "findIndex_from (id_is n) (k + 1) xs = Inr r"
    and "r = - 1 \<or> (k + 1 \<le> r \<and> r < k + 1 + int (length xs))"
    by fastforce
  with Cons.prems show ?case by (auto simp: id_is_total)
qed

subsection \<open>Array updates inside the array\<close>

lemma splice_one: "p < length S \<Longrightarrow> splice S (int p) 1 = take p S @ drop (Suc p) S"
  by (simp add: splice_def Let_def nat_add_distrib)

lemma array_set_in_range: "p < length S \<Longrightarrow> array_set S (int p) v = S[p := v]"
  by (simp add: array_set_def)

lemma array_get_in_range: "p < length S \<Longrightarrow> array_get S (int p) = S ! p"
  by (simp add: array_get_def)

lemma list_all_update: "list_all P xs \<Longrightarrow> P v \<Longrightarrow> list_all P (xs[p := v])"
  by (induction xs arbitrary: p) (auto split: nat.splits)

lemma list_all_take: "list_all P xs \<Longrightarrow> list_all P (take n xs)"
  by (induction xs arbitrary: n) (auto simp: take_Cons split: nat.splits)

lemma list_all_drop: "list_all P xs \<Longrightarrow> list_all P (drop n xs)"
  by (induction xs arbitrary: n) (auto simp: drop_Cons split: nat.splits)

subsection \<open>The merge\<close>

lemma coercible_spread2: "object_coercible (spread2 a b)"
  by (simp add: spread2_def)

lemma lookup_spread2:
  "spread2 a b = JObj m \<Longrightarrow>
   fmlookup m k = (case fmlookup (own_properties b) k of
                     Some v \<Rightarrow> Some v
                   | None \<Rightarrow> fmlookup (own_properties a) k)"
  by (auto simp: spread2_def fmlookup_dom_iff split: option.splits)

subsection \<open>The handlers on a record that is found\<close>

lemma patch_found:
  assumes "list_all object_coercible S" and "p < length S" and "has_id (parseInt s 10) (S ! p)"
    and "\<not> list_ex (has_id (parseInt s 10)) (take p S)"
  shows "patch_jobs_id S s body
         = (Inr \<lparr>status = 200, payload = spread2 (S ! p) body\<rparr>, S[p := spread2 (S ! p) body])"
proof -
  from findIndex_from_first [OF assms, of 0]
  have "findIndex (id_is (parseInt s 10)) S = Inr (int p)"
    by (simp add: findIndex_def)
  with assms(2) show ?thesis
    by (simp add: patch_jobs_id_def Let_def array_get_in_range array_set_in_range)
qed

lemma delete_found:
  assumes "list_all object_coercible S" and "p < length S" and "has_id (parseInt s 10) (S ! p)"
    and "\<not> list_ex (has_id (parseInt s 10)) (take p S)"
  shows "delete_jobs_id S s
         = (Inr \<lparr>status = 200, payload = message ''Job deleted successfully''\<rparr>,
            take p S @ drop (Suc p) S)"
proof -
  from findIndex_from_first [OF assms, of 0]
  have "findIndex (id_is (parseInt s 10)) S = Inr (int p)"
    by (simp add: findIndex_def)
  with assms(2) show ?thesis
    by (simp add: delete_jobs_id_def Let_def splice_one)
qed

subsection \<open>No handler throws on an array of readable records\<close>

lemma dispatch_keeps_records:
  assumes "list_all object_coercible S" and "body_readable r"
  shows "\<not> isl (fst (dispatch S r)) \<and> list_all object_coercible (snd (dispatch S r))"
proof (cases r)
  case GetRoot
  with assms show ?thesis by (simp add: get_root_def)
next
  case GetJobs
  with assms show ?thesis by (simp add: get_jobs_def)
next
  case (GetJobsId s)
  from find_js_total [OF assms(1), of "parseInt s 0"]
  obtain j where "find_js (id_is (parseInt s 0)) S = Inr j" by blast
  with GetJobsId assms show ?thesis by (simp add: get_jobs_id_def Let_def)
next
  case (PostJobs b)
  with assms show ?thesis by (simp add: post_jobs_def Let_def)
next
  case (PatchJobsId s b)
  from findIndex_from_total [OF assms(1), of "parseInt s 10" 0]
  obtain i where i: "findIndex_from (id_is (parseInt s 10)) 0 S = Inr i"
    and range: "i = - 1 \<or> (0 \<le> i \<and> i < int (length S))" by auto
  show ?thesis
  proof (cases "i = - 1")
    case True
    with PatchJobsId assms i show ?thesis
      by (simp add: patch_jobs_id_def findIndex_def Let_def)
  next
    case False
    define p where "p = nat i"
    from range False have p: "i = int p" "p < length S"
      by (auto simp: p_def nat_less_iff)
    have "list_all object_coercible (S[p := spread2 (S ! p) b])"
      using assms(1) by (simp add: list_all_update coercible_spread2)
    with PatchJobsId i p False show ?thesis
      by (simp add: patch_jobs_id_def findIndex_def array_set_in_range array_get_in_range Let_def)
  qed
next
  case (DeleteJobsId s)
  from findIndex_from_total [OF assms(1), of "parseInt s 10" 0]
  obtain i where i: "findIndex_from (id_is (parseInt s 10)) 0 S = Inr i"
    and range: "i = - 1 \<or> (0 \<le> i \<and> i < int (length S))" by auto
  show ?thesis
  proof (cases "i = - 1")
    case True
    with DeleteJobsId assms i show ?thesis
      by (simp add: delete_jobs_id_def findIndex_def Let_def)
  next
    case False
    define p where "p = nat i"
    from range False have p: "i = int p" "p < length S"
      by (auto simp: p_def nat_less_iff)
    have "list_all object_coercible (take p S @ drop (Suc p) S)"
      using assms(1) by (simp add: list_all_take list_all_drop)
    with DeleteJobsId i p False show ?thesis
      by (simp add: delete_jobs_id_def findIndex_def splice_one Let_def)
  qed
qed

lemma run_never_throws:
  "list_all object_coercible S \<Longrightarrow> list_all body_readable rs \<Longrightarrow>
   list_all (\<lambda>out. \<not> isl out) (fst (run S rs)) \<and> list_all object_coercible (snd (run S rs))"
proof (induction rs arbitrary: S)
  case Nil
  then show ?case by simp
next
  case (Cons r rs)
  from Cons.prems
  have step: "\<not> isl (fst (dispatch S r))" "list_all object_coercible (snd (dispatch S r))"
    using dispatch_keeps_records [of S r] by auto
  from Cons.IH [OF step(2)] Cons.prems(2)
  have "list_all (\<lambda>out. \<not> isl out) (fst (run (snd (dispatch S r)) rs))
        \<and> list_all object_coercible (snd (run (snd (dispatch S r)) rs))" by simp
  with step show ?case by (simp add: split_beta)
qed

section \<open>Properties of the handlers\<close>

text \<open>
  Throughout, \<open>S\<close> is the array before the request and \<open>s\<close> the path parameter. The
  records of \<open>S\<close> are readable (none is \<open>undefined\<close> or \<open>null\<close>), which holds of every
  array of parsed request bodies and is kept by every handler.
\<close>

text \<open>
  C1: when no record of the array has the id that the path parameter parses to, each of
  \<open>GET /jobs/:id\<close>, \<open>PATCH /jobs/:id\<close> (with any body) and \<open>DELETE /jobs/:id\<close>
  answers with status 404 and the payload \<open>{message: "Job not found"}\<close>.
\<close>

theorem not_found_when_id_absent:
  assumes "list_all object_coercible S"
  shows "(\<not> list_ex (has_id (parseInt s 0)) S \<longrightarrow>
            get_jobs_id S s
              = (Inr \<lparr>status = 404,
                      payload = JObj (fmap_of_list [(''message'', JStr ''Job not found'')])\<rparr>, S))
       \<and> (\<not> list_ex (has_id (parseInt s 10)) S \<longrightarrow>
            patch_jobs_id S s body
              = (Inr \<lparr>status = 404,
                      payload = JObj (fmap_of_list [(''message'', JStr ''Job not found'')])\<rparr>, S)
          \<and> delete_jobs_id S s
              = (Inr \<lparr>status = 404,
                      payload = JObj (fmap_of_list [(''message'', JStr ''Job not found'')])\<rparr>, S))"
  using assms
  by (simp add: get_jobs_id_def patch_jobs_id_def delete_jobs_id_def findIndex_def
      find_js_absent findIndex_from_absent message_def Let_def)

theorem not_found_when_id_absent_witness:
  "list_all object_coercible [job_applied]
   \<and> \<not> list_ex (has_id (parseInt ''2'' 0)) [job_applied]
   \<and> \<not> list_ex (has_id (parseInt ''2'' 10)) [job_applied]
   \<and> get_jobs_id [job_applied] ''2''
       = (Inr \<lparr>status = 404,
               payload = JObj (fmap_of_list [(''message'', JStr ''Job not found'')])\<rparr>,
          [job_applied])
   \<and> patch_jobs_id [job_applied] ''2'' status_interviewing
       = (Inr \<lparr>status = 404,
               payload = JObj (fmap_of_list [(''message'', JStr ''Job not found'')])\<rparr>,
          [job_applied])
   \<and> delete_jobs_id [job_applied] ''2''
       = (Inr \<lparr>status = 404,
               payload = JObj (fmap_of_list [(''message'', JStr ''Job not found'')])\<rparr>,
          [job_applied])"
proof -
  have wf: "list_all object_coercible [job_applied]"
    by (simp add: job_applied_def)
  have p0: "parseInt ''2'' 0 = Val 2" and p10: "parseInt ''2'' 10 = Val 2"
    by (simp_all add: parse_eval)
  have absent: "\<not> list_ex (has_id (Val 2)) [job_applied]"
    by (simp add: job_applied_def has_id_def id_is_def)
  from not_found_when_id_absent [OF wf, of "''2''" status_interviewing] wf absent p0 p10
  show ?thesis by simp
qed

text \<open>
  C2, as stated, fails for a record that is not the first with its id: in
  \<open>[{id: 1, status: "Applied"}, {id: 1, title: "C"}]\<close> the record at position 1 has id 1,
  but the update of job 1 with \<open>{status: "Interviewing"}\<close> merges over the record at
  position 0 and stores the result there; the record at position 1 stays as it was, and
  what is sent back is not the merge over it.
\<close>

theorem update_skips_later_duplicate_counterexample:
  "has_id (parseInt ''1'' 10) ([job_applied, job_one_again] ! 1)
   \<and> patch_jobs_id [job_applied, job_one_again] ''1'' status_interviewing
       = (Inr \<lparr>status = 200, payload = job_interviewing\<rparr>, [job_interviewing, job_one_again])
   \<and> [job_interviewing, job_one_again] ! 1 = job_one_again
   \<and> job_interviewing \<noteq> spread2 job_one_again status_interviewing"
proof -
  have p10: "parseInt ''1'' 10 = Val 1"
    by (simp add: parse_eval)
  have a: "id_is (Val 1) job_applied = Inr True" and b: "id_is (Val 1) job_one_again = Inr True"
    by (simp_all add: job_applied_def job_one_again_def id_is_def)
  have m: "spread2 job_applied status_interviewing = job_interviewing"
    by (auto simp: spread2_def job_applied_def status_interviewing_def job_interviewing_def
        intro!: fmap_ext)
  have d: "job_interviewing \<noteq> spread2 job_one_again status_interviewing"
  proof
    assume "job_interviewing = spread2 job_one_again status_interviewing"
    then have "fmlookup (own_properties job_interviewing) ''title''
               = fmlookup (own_properties (spread2 job_one_again status_interviewing)) ''title''"
      by simp
    then show False
      by (simp add: spread2_def job_interviewing_def job_one_again_def status_interviewing_def)
  qed
  show ?thesis
    by (simp add: p10 has_id_def a b d patch_jobs_id_def findIndex_def array_get_def array_set_def
        m Let_def)
qed

text \<open>
  C2, amended: when the record at position \<open>p\<close> is the first with the id of the path
  parameter, \<open>PATCH /jobs/:id\<close> builds the shallow merge of the body over that record (on every key
  the body's value if the body has the key, the record's old value otherwise), stores it
  at position \<open>p\<close> and sends it back.
\<close>

theorem update_merges_body_over_record:
  assumes "list_all object_coercible S" and "p < length S" and "has_id (parseInt s 10) (S ! p)"
    and "\<not> list_ex (has_id (parseInt s 10)) (take p S)"
  shows "\<exists>merged.
           patch_jobs_id S s partial
             = (Inr \<lparr>status = 200, payload = JObj merged\<rparr>, S[p := JObj merged])
         \<and> (\<forall>k. fmlookup merged k
                  = (case fmlookup (own_properties partial) k of
                       Some v \<Rightarrow> Some v
                     | None \<Rightarrow> fmlookup (own_properties (S ! p)) k))"
proof -
  obtain merged where m: "spread2 (S ! p) partial = JObj merged"
    by (simp add: spread2_def)
  from patch_found [OF assms, of partial] m lookup_spread2 [OF m]
  show ?thesis by auto
qed

text \<open>
  The scenario of the specification: on \<open>[{id: 1, status: "Applied"}]\<close>, the update of
  job 1 with \<open>{status: "Interviewing"}\<close> returns and stores
  \<open>{id: 1, status: "Interviewing"}\<close>.
\<close>

theorem update_merges_body_over_record_witness:
  "list_all object_coercible [job_applied]
   \<and> (0::nat) < length [job_applied]
   \<and> has_id (parseInt ''1'' 10) ([job_applied] ! 0)
   \<and> \<not> list_ex (has_id (parseInt ''1'' 10)) (take 0 [job_applied])
   \<and> patch_jobs_id [job_applied] ''1'' status_interviewing
       = (Inr \<lparr>status = 200, payload = job_interviewing\<rparr>, [job_interviewing])"
proof -
  have wf: "list_all object_coercible [job_applied]"
    by (simp add: job_applied_def)
  have len: "(0::nat) < length [job_applied]" by simp
  have p10: "parseInt ''1'' 10 = Val 1"
    by (simp add: parse_eval)
  have hit: "has_id (parseInt ''1'' 10) ([job_applied] ! 0)"
    by (simp add: p10 job_applied_def has_id_def id_is_def)
  have first: "\<not> list_ex (has_id (parseInt ''1'' 10)) (take 0 [job_applied])" by simp
  from update_merges_body_over_record [OF wf len hit first, of status_interviewing]
  obtain merged where
    eq: "patch_jobs_id [job_applied] ''1'' status_interviewing
         = (Inr \<lparr>status = 200, payload = JObj merged\<rparr>, [job_applied][0 := JObj merged])"
    and look: "\<And>k. fmlookup merged k
         = (case fmlookup (own_properties status_interviewing) k of
              Some v \<Rightarrow> Some v
            | None \<Rightarrow> fmlookup (own_properties ([job_applied] ! 0)) k)"
    by blast
  have "merged = fmap_of_list [(''id'', JNum (Val 1)), (''status'', JStr ''Interviewing'')]"
    by (rule fmap_ext) (auto simp: look job_applied_def status_interviewing_def)
  with eq wf len hit first show ?thesis
    by (simp add: job_interviewing_def)
qed

text \<open>
  C3: a record added to the array should carry the id of the last record plus 1, or 1 on
  the empty array. \<open>getNextIdFromCollection\<close> computes that id, but \<open>POST /jobs\<close> never
  calls it: on the empty array it would give 1, on \<open>[{id: 1, ...}]\<close> it would give 2, and
  in both cases the body \<open>{title: "A"}\<close> is appended as it came, with no id.
\<close>

theorem create_assigns_no_id:
  "getNextIdFromCollection [] = Some (Inr (JNum (Val 1)))
   \<and> post_jobs [] job_titled_A = (Inr \<lparr>status = 201, payload = job_titled_A\<rparr>, [job_titled_A])
   \<and> member_id job_titled_A = Inr JUndefined
   \<and> getNextIdFromCollection [job_applied] = Some (Inr (JNum (Val 2)))
   \<and> post_jobs [job_applied] job_titled_A
       = (Inr \<lparr>status = 201, payload = job_titled_A\<rparr>, [job_applied, job_titled_A])"
  by (simp add: getNextIdFromCollection_def post_jobs_def job_titled_A_def job_applied_def Let_def
      to_double_numeral)

text \<open>
  C4, as stated, fails when two records share an id: on
  \<open>[{id: 1, status: "Applied"}, {id: 1, title: "C"}]\<close> the deletion of job 1 removes the
  first of them only, and the list returned afterwards still holds a record with id 1.
\<close>

theorem delete_leaves_duplicate_id_counterexample:
  "list_ex (has_id (parseInt ''1'' 10)) [job_applied, job_one_again]
   \<and> delete_jobs_id [job_applied, job_one_again] ''1''
       = (Inr \<lparr>status = 200,
               payload = JObj (fmap_of_list [(''message'', JStr ''Job deleted successfully'')])\<rparr>,
          [job_one_again])
   \<and> get_jobs [job_one_again]
       = (Inr \<lparr>status = 200, payload = JArr [job_one_again]\<rparr>, [job_one_again])
   \<and> list_ex (has_id (parseInt ''1'' 10)) [job_one_again]"
proof -
  have p10: "parseInt ''1'' 10 = Val 1"
    by (simp add: parse_eval)
  have a: "id_is (Val 1) job_applied = Inr True" and b: "id_is (Val 1) job_one_again = Inr True"
    by (simp_all add: job_applied_def job_one_again_def id_is_def)
  show ?thesis
    by (simp add: p10 has_id_def a b delete_jobs_id_def findIndex_def splice_def message_def
        get_jobs_def Let_def)
qed

text \<open>
  C4, amended: when the record at position \<open>p\<close> is the first with the id of the path
  parameter, \<open>DELETE /jobs/:id\<close> removes exactly that record, so the array is one shorter;
  and when no later record has the same id, no record of the list returned afterwards by
  \<open>GET /jobs\<close> has it.
\<close>

theorem delete_removes_first_match:
  assumes "list_all object_coercible S" and "p < length S" and "has_id (parseInt s 10) (S ! p)"
    and "\<not> list_ex (has_id (parseInt s 10)) (take p S)"
  shows "delete_jobs_id S s
           = (Inr \<lparr>status = 200,
                   payload = JObj (fmap_of_list [(''message'', JStr ''Job deleted successfully'')])\<rparr>,
              take p S @ drop (Suc p) S)
       \<and> Suc (length (snd (delete_jobs_id S s))) = length S
       \<and> (\<not> list_ex (has_id (parseInt s 10)) (drop (Suc p) S) \<longrightarrow>
            (\<exists>listed. get_jobs (snd (delete_jobs_id S s))
                        = (Inr \<lparr>status = 200, payload = JArr listed\<rparr>, listed)
                     \<and> \<not> list_ex (has_id (parseInt s 10)) listed))"
proof -
  have del: "delete_jobs_id S s
           = (Inr \<lparr>status = 200, payload = message ''Job deleted successfully''\<rparr>,
              take p S @ drop (Suc p) S)"
    by (rule delete_found [OF assms])
  from assms(2) have len: "Suc (length (take p S @ drop (Suc p) S)) = length S"
    by simp
  show ?thesis
    using del len assms(4) by (simp add: message_def get_jobs_def)
qed

theorem delete_removes_first_match_witness:
  "list_all object_coercible [job_applied, job_twelve]
   \<and> (0::nat) < length [job_applied, job_twelve]
   \<and> has_id (parseInt ''1'' 10) ([job_applied, job_twelve] ! 0)
   \<and> \<not> list_ex (has_id (parseInt ''1'' 10)) (take 0 [job_applied, job_twelve])
   \<and> \<not> list_ex (has_id (parseInt ''1'' 10)) (drop (Suc 0) [job_applied, job_twelve])
   \<and> snd (delete_jobs_id [job_applied, job_twelve] ''1'') = [job_twelve]
   \<and> (\<exists>listed. get_jobs (snd (delete_jobs_id [job_applied, job_twelve] ''1''))
                  = (Inr \<lparr>status = 200, payload = JArr listed\<rparr>, listed)
               \<and> \<not> list_ex (has_id (parseInt ''1'' 10)) listed)"
proof -
  have wf: "list_all object_coercible [job_applied, job_twelve]"
    by (simp add: job_applied_def job_twelve_def)
  have len: "(0::nat) < length [job_applied, job_twelve]" by simp
  have p10: "parseInt ''1'' 10 = Val 1"
    by (simp add: parse_eval)
  have hit: "has_id (parseInt ''1'' 10) ([job_applied, job_twelve] ! 0)"
    by (simp add: p10 job_applied_def has_id_def id_is_def)
  have first: "\<not> list_ex (has_id (parseInt ''1'' 10)) (take 0 [job_applied, job_twelve])"
    by simp
  have rest: "\<not> list_ex (has_id (parseInt ''1'' 10)) (drop (Suc 0) [job_applied, job_twelve])"
    by (simp add: p10 job_twelve_def has_id_def id_is_def)
  note removed = delete_removes_first_match [OF wf len hit first]
  from removed have del: "snd (delete_jobs_id [job_applied, job_twelve] ''1'') = [job_twelve]"
    by simp
  from removed rest
  have listed: "\<exists>listed. get_jobs (snd (delete_jobs_id [job_applied, job_twelve] ''1''))
                  = (Inr \<lparr>status = 200, payload = JArr listed\<rparr>, listed)
               \<and> \<not> list_ex (has_id (parseInt ''1'' 10)) listed"
    by blast
  from wf len hit first rest del listed show ?thesis by blast
qed

text \<open>
  C5: \<open>POST /jobs\<close> appends the body as it is as the new last element, sends it back
  with status 201, and the list returned afterwards by \<open>GET /jobs\<close> is the old array
  followed by the body.
\<close>

theorem create_appends_body_unchanged:
  "post_jobs S p = (Inr \<lparr>status = 201, payload = p\<rparr>, S @ [p])
   \<and> get_jobs (snd (post_jobs S p))
       = (Inr \<lparr>status = 200, payload = JArr (S @ [p])\<rparr>, S @ [p])"
  by (simp add: post_jobs_def get_jobs_def Let_def)

text \<open>
  C6: when no record has the id of the path parameter, \<open>PATCH /jobs/:id\<close> answers 404
  and the array afterwards is the array before: the merge over the missing record is not
  written.
\<close>

theorem update_of_absent_id_writes_nothing:
  assumes "list_all object_coercible S" and "\<not> list_ex (has_id (parseInt s 10)) S"
  shows "patch_jobs_id S s body
         = (Inr \<lparr>status = 404,
                 payload = JObj (fmap_of_list [(''message'', JStr ''Job not found'')])\<rparr>, S)"
  using assms
  by (simp add: patch_jobs_id_def findIndex_def findIndex_from_absent message_def Let_def)

theorem update_of_absent_id_writes_nothing_witness:
  "list_all object_coercible [job_applied, job_twelve]
   \<and> \<not> list_ex (has_id (parseInt ''2'' 10)) [job_applied, job_twelve]
   \<and> snd (patch_jobs_id [job_applied, job_twelve] ''2'' status_interviewing)
       = [job_applied, job_twelve]"
proof -
  have wf: "list_all object_coercible [job_applied, job_twelve]"
    by (simp add: job_applied_def job_twelve_def)
  have p10: "parseInt ''2'' 10 = Val 2"
    by (simp add: parse_eval)
  have absent: "\<not> list_ex (has_id (parseInt ''2'' 10)) [job_applied, job_twelve]"
    by (simp add: p10 job_applied_def job_twelve_def has_id_def id_is_def)
  from update_of_absent_id_writes_nothing [OF wf absent, of status_interviewing] wf absent
  show ?thesis by simp
qed

text \<open>
  C7, as stated, fails for a malformed identifier with a numeric prefix: \<open>parseInt\<close>
  reads \<open>"12abc"\<close> as 12, and \<open>GET /jobs/12abc\<close> returns the record with id 12.
\<close>

theorem numeric_prefix_id_matches_counterexample:
  "parseInt ''12abc'' 0 = Val 12
   \<and> get_jobs_id [job_twelve] ''12abc''
       = (Inr \<lparr>status = 200, payload = job_twelve\<rparr>, [job_twelve])"
proof -
  have p: "parseInt ''12abc'' 0 = Val 12"
    by (simp add: parse_eval)
  have "id_is (Val 12) job_twelve = Inr True"
    by (simp add: job_twelve_def id_is_def)
  with p show ?thesis
    by (simp add: get_jobs_id_def job_twelve_def Let_def)
qed

text \<open>
  C7, amended: a path identifier without a numeric prefix (after leading white space and
  an optional sign it does not start with a decimal digit) parses to \<open>NaN\<close>, which is the
  id of no record, and \<open>GET\<close>, \<open>PATCH\<close> and \<open>DELETE\<close> on it answer 404 with
  \<open>{message: "Job not found"}\<close>; and in any sequence of requests whose create bodies are
  readable, no handler throws.
\<close>

theorem non_numeric_id_is_not_found:
  assumes "list_all object_coercible S" and "\<not> numeric_prefix s" and "list_all body_readable rs"
  shows "parseInt s 0 = NaN \<and> parseInt s 10 = NaN
       \<and> get_jobs_id S s
           = (Inr \<lparr>status = 404,
                   payload = JObj (fmap_of_list [(''message'', JStr ''Job not found'')])\<rparr>, S)
       \<and> patch_jobs_id S s body
           = (Inr \<lparr>status = 404,
                   payload = JObj (fmap_of_list [(''message'', JStr ''Job not found'')])\<rparr>, S)
       \<and> delete_jobs_id S s
           = (Inr \<lparr>status = 404,
                   payload = JObj (fmap_of_list [(''message'', JStr ''Job not found'')])\<rparr>, S)
       \<and> list_all (\<lambda>out. \<not> isl out) (fst (run S rs))"
proof -
  from no_numeric_prefix_NaN [OF assms(2)]
  have nan: "parseInt s 0 = NaN" "parseInt s 10 = NaN" by simp_all
  have "\<not> has_id NaN j" for j
    by (simp add: has_id_iff)
  then have absent: "\<not> list_ex (has_id NaN) S"
    by (simp add: list_ex_iff)
  from run_never_throws [OF assms(1) assms(3)]
  have "list_all (\<lambda>out. \<not> isl out) (fst (run S rs))" by simp
  with nan absent assms(1) show ?thesis
    by (simp add: get_jobs_id_def patch_jobs_id_def delete_jobs_id_def findIndex_def
        find_js_absent findIndex_from_absent message_def Let_def)
qed

theorem non_numeric_id_is_not_found_witness:
  "list_all object_coercible [job_applied]
   \<and> \<not> numeric_prefix ''abc''
   \<and> list_all body_readable [PostJobs job_titled_A, GetJobsId ''1'', DeleteJobsId ''abc'']
   \<and> parseInt ''abc'' 0 = NaN
   \<and> get_jobs_id [job_applied] ''abc''
       = (Inr \<lparr>status = 404,
               payload = JObj (fmap_of_list [(''message'', JStr ''Job not found'')])\<rparr>,
          [job_applied])
   \<and> list_all (\<lambda>out. \<not> isl out)
        (fst (run [job_applied] [PostJobs job_titled_A, GetJobsId ''1'', DeleteJobsId ''abc'']))"
proof -
  have wf: "list_all object_coercible [job_applied]"
    by (simp add: job_applied_def)
  have mal: "\<not> numeric_prefix ''abc''"
    by (simp add: numeric_prefix_def skip_sign_def isWhiteSpace_def is_radix_digit_def
        digit_value_def)
  have bodies: "list_all body_readable [PostJobs job_titled_A, GetJobsId ''1'', DeleteJobsId ''abc'']"
    by (simp add: job_titled_A_def)
  from non_numeric_id_is_not_found [OF wf mal bodies] wf mal bodies
  show ?thesis by simp
qed

text \<open>
  C8: List always succeeds and returns the whole array as stored: \<open>GET /jobs\<close> sends,
  with status 200, exactly the array it holds, in its order, and throws nothing.
\<close>

theorem list_returns_registry:
  "get_jobs S = (Inr \<lparr>status = 200, payload = JArr S\<rparr>, S)"
  by (simp add: get_jobs_def)

text \<open>
  C9: the handlers that only read (\<open>GET /\<close>, \<open>GET /jobs\<close> and \<open>GET /jobs/:id\<close>, for any
  path parameter and whether or not a record is found) leave the array as it was.
\<close>

theorem reads_leave_registry_unchanged:
  "snd (get_root S) = S \<and> snd (get_jobs S) = S \<and> snd (get_jobs_id S s) = S"
  by (simp add: get_root_def get_jobs_def get_jobs_id_def Let_def split: sum.splits)

text \<open>
  C10, as stated, fails for a record that is not the first with its id: in
  \<open>[{id: 1, status: "Applied"}, {id: 1, title: "C"}]\<close> the record at position 1 has id 1,
  but the update of job 1 with \<open>{id: 7}\<close> rewrites the record at position 0, and the
  record at position 1 keeps the id 1.
\<close>

theorem update_rewrites_first_only_counterexample:
  "has_id (parseInt ''1'' 10) ([job_applied, job_one_again] ! 1)
   \<and> fmlookup (own_properties id_seven) ''id'' = Some (JNum (Val 7))
   \<and> patch_jobs_id [job_applied, job_one_again] ''1'' id_seven
       = (Inr \<lparr>status = 200, payload = job_seven_applied\<rparr>, [job_seven_applied, job_one_again])
   \<and> member_id ([job_seven_applied, job_one_again] ! 1) = Inr (JNum (Val 1))"
proof -
  have p10: "parseInt ''1'' 10 = Val 1"
    by (simp add: parse_eval)
  have a: "id_is (Val 1) job_applied = Inr True" and b: "id_is (Val 1) job_one_again = Inr True"
    by (simp_all add: job_applied_def job_one_again_def id_is_def)
  have m: "spread2 job_applied id_seven = job_seven_applied"
    by (auto simp: spread2_def job_applied_def id_seven_def job_seven_applied_def
        intro!: fmap_ext)
  have k: "fmlookup (own_properties id_seven) ''id'' = Some (JNum (Val 7))"
    by (simp add: id_seven_def)
  have l: "member_id job_one_again = Inr (JNum (Val 1))"
    by (simp add: job_one_again_def)
  show ?thesis
    by (simp add: p10 has_id_def a b k l patch_jobs_id_def findIndex_def array_get_def
        array_set_def m Let_def)
qed

text \<open>
  C10, amended: the merge of \<open>PATCH /jobs/:id\<close> does not protect the id: when the record
  at position \<open>p\<close> is the first with the id of the path parameter and the body has a key
  \<open>id\<close> with value \<open>j\<close>, the record stored at position \<open>p\<close>, which is the record sent
  back, has the id \<open>j\<close>.
\<close>

theorem update_rewrites_id:
  assumes "list_all object_coercible S" and "p < length S" and "has_id (parseInt s 10) (S ! p)"
    and "\<not> list_ex (has_id (parseInt s 10)) (take p S)"
    and "fmlookup (own_properties body) ''id'' = Some j"
  shows "\<exists>updated.
           patch_jobs_id S s body = (Inr \<lparr>status = 200, payload = updated\<rparr>, S[p := updated])
         \<and> member_id updated = Inr j"
proof -
  obtain merged where m: "spread2 (S ! p) body = JObj merged"
    by (simp add: spread2_def)
  from lookup_spread2 [OF m, of "''id''"] assms(5)
  have "member_id (JObj merged) = Inr j" by simp
  with patch_found [OF assms(1-4), of body] m show ?thesis by simp
qed

theorem update_rewrites_id_witness:
  "list_all object_coercible [job_applied]
   \<and> (0::nat) < length [job_applied]
   \<and> has_id (parseInt ''1'' 10) ([job_applied] ! 0)
   \<and> \<not> list_ex (has_id (parseInt ''1'' 10)) (take 0 [job_applied])
   \<and> fmlookup (own_properties id_seven) ''id'' = Some (JNum (Val 7))
   \<and> (\<exists>updated.
         patch_jobs_id [job_applied] ''1'' id_seven
           = (Inr \<lparr>status = 200, payload = updated\<rparr>, [updated])
       \<and> member_id updated = Inr (JNum (Val 7)))"
proof -
  have wf: "list_all object_coercible [job_applied]"
    by (simp add: job_applied_def)
  have len: "(0::nat) < length [job_applied]" by simp
  have p10: "parseInt ''1'' 10 = Val 1"
    by (simp add: parse_eval)
  have hit: "has_id (parseInt ''1'' 10) ([job_applied] ! 0)"
    by (simp add: p10 job_applied_def has_id_def id_is_def)
  have first: "\<not> list_ex (has_id (parseInt ''1'' 10)) (take 0 [job_applied])" by simp
  have key: "fmlookup (own_properties id_seven) ''id'' = Some (JNum (Val 7))"
    by (simp add: id_seven_def)
  from update_rewrites_id [OF wf len hit first key] wf len hit first key
  show ?thesis by simp
qed

end
